theory Spec2Isabelle
  imports Main "HOL-Library.AList"
begin

section \<open>Domain types (src/frontend/src/types.ts)\<close>

datatype TransactionType = ingreso | egreso

datatype TransactionStatus = pendiente | procesado | fallido | cancelado

text \<open>
  The interface \<open>Transaction\<close>. The field \<open>id\<close> of the source is written \<open>id'\<close>,
  since \<open>id\<close> is the identity function of HOL.
\<close>

record Transaction =
  id' :: string
  user_id :: string
  monto :: string
  tipo :: TransactionType
  status :: TransactionStatus
  created_at :: string
  updated_at :: string

text \<open>
  The interface \<open>NewTransaction\<close>; its fields carry the prefix \<open>new_\<close>, since a record
  of HOL cannot share field names with \<open>Transaction\<close>.
\<close>

record NewTransaction =
  new_user_id :: string
  new_monto :: string
  new_tipo :: TransactionType

datatype keepalive_tag = keepalive

text \<open>
  The interface \<open>WSMessage\<close>: \<open>event\<close> is required, every other field optional
  (\<open>None\<close> is JavaScript's \<open>undefined\<close>). The field \<open>type\<close> is written \<open>type'\<close>.
\<close>

record WSMessage =
  event :: string
  transaction_id :: "string option"
  old_status :: "TransactionStatus option"
  new_status :: "TransactionStatus option"
  timestamp :: "string option"
  type' :: "keepalive_tag option"

section \<open>The transactions store (\<open>useTransactions\<close>, in src/frontend/src/App.tsx)\<close>

text \<open>
  JavaScript truthiness of an optional string: \<open>undefined\<close> and the empty string are
  falsy, every other string is truthy.
\<close>

definition truthy :: "string option \<Rightarrow> bool" where
  "truthy v = (case v of None \<Rightarrow> False | Some s \<Rightarrow> s \<noteq> [])"

text \<open>
  The function passed to \<open>prev.map\<close> in \<open>handleWSMessage\<close>:
  \<^verbatim>\<open>tx.id === message.transaction_id && message.new_status
     ? { ...tx, status: message.new_status,
         updated_at: message.timestamp || tx.updated_at }
     : tx\<close>
  A value of \<open>TransactionStatus\<close> is a non-empty string, so \<open>message.new_status\<close> is
  truthy exactly when the field is present.
\<close>

definition update_tx :: "WSMessage \<Rightarrow> Transaction \<Rightarrow> Transaction" where
  "update_tx message tx =
     (if Some (id' tx) = transaction_id message
      then (case new_status message of
              None \<Rightarrow> tx
            | Some s \<Rightarrow>
                tx\<lparr>status := s,
                   updated_at := (case timestamp message of
                                    None \<Rightarrow> updated_at tx
                                  | Some t \<Rightarrow> if t \<noteq> [] then t else updated_at tx)\<rparr>)
      else tx)"

text \<open>
  \<open>handleWSMessage\<close>, as the state transformer it hands to \<open>setTransactions\<close>; when the
  guard fails \<open>setTransactions\<close> is not called and the state is as before.
\<close>

definition handleWSMessage :: "WSMessage \<Rightarrow> Transaction list \<Rightarrow> Transaction list" where
  "handleWSMessage message prev =
     (if event message = ''transaction.status_changed'' \<and> truthy (transaction_id message)
      then map (update_tx message) prev
      else prev)"

text \<open>Events applied one after the other, in receipt order.\<close>

definition apply_events :: "WSMessage list \<Rightarrow> Transaction list \<Rightarrow> Transaction list" where
  "apply_events es prev = foldl (\<lambda>s m. handleWSMessage m s) prev es"

section \<open>The API client (src/unnamed/part_000)\<close>

text \<open>
  What a rejected promise carries: \<open>Error msg\<close> is \<^verbatim>\<open>new Error(msg)\<close>; \<open>SyntaxError\<close> is
  what \<^verbatim>\<open>JSON.parse\<close> and \<^verbatim>\<open>response.json()\<close> fail with on a text that is not JSON;
  \<open>TypeError\<close> is what \<^verbatim>\<open>fetch\<close> rejects with when no response arrives, and what reading
  a property of \<^verbatim>\<open>null\<close> throws.
\<close>

datatype exn = Error string | SyntaxError | TypeError

text \<open>
  The second argument of \<^verbatim>\<open>fetch\<close> (\<open>RequestInit\<close>), with the three members the client
  uses. The member \<^verbatim>\<open>method\<close> is written \<open>http_method\<close>. Headers are an object literal:
  an association list in insertion order, with distinct keys.
\<close>

record RequestInit =
  http_method :: "string option"
  body :: "string option"
  headers :: "(string \<times> string) list option"

text \<open>
  The members of the fetch \<open>Response\<close> the client reads: \<^verbatim>\<open>response.ok\<close>,
  \<^verbatim>\<open>response.status\<close> (written \<open>status_code\<close>: \<open>status\<close> is the field of a transaction) and
  the body that \<^verbatim>\<open>response.text()\<close> resolves to (written \<open>body_text\<close>).
\<close>

record Response =
  ok :: bool
  status_code :: nat
  body_text :: string

definition API_BASE :: string where
  "API_BASE = ''/api''"

text \<open>
  Object spread \<^verbatim>\<open>{...base, ...ext}\<close> for keys that are not integer-like (header names, such
  as the \<open>Content-Type\<close> and \<open>Idempotency-Key\<close> the client passes): a later key replaces the
  value in place, a new key is appended. JavaScript lists integer-like keys before all
  others; no caller passes such a header name, and that ordering is not modelled.
\<close>

definition spread :: "(string \<times> string) list \<Rightarrow> (string \<times> string) list \<Rightarrow> (string \<times> string) list" where
  "spread base ext = foldl (\<lambda>acc (k, v). AList.update k v acc) base ext"

text \<open>The decimal numeral a template literal prints for a non-negative integer.\<close>

definition digit :: "nat \<Rightarrow> char" where
  "digit d = ''0123456789'' ! d"

fun string_of_nat :: "nat \<Rightarrow> string" where
  "string_of_nat n =
     (if n < 10 then [digit n]
      else string_of_nat (n div 10) @ [digit (n mod 10)])"

declare string_of_nat.simps [simp del]

text \<open>
  \<^verbatim>\<open>request<T>(path, options)\<close>; \<open>request_init\<close> is the object it passes to \<^verbatim>\<open>fetch\<close>: the
  options without their headers, and the merged headers. The platform is a parameter: \<open>fetch\<close> acts on a world \<open>'w\<close>
  (the network and the server) and either rejects or resolves to a response; \<open>json\<close> is
  \<^verbatim>\<open>response.json()\<close> read at type \<open>T\<close>, \<open>None\<close> when the body is not JSON. The result is the
  settled promise: \<open>Inl\<close> a rejection, \<open>Inr\<close> the value.
\<close>

definition request_init :: "RequestInit option \<Rightarrow> RequestInit" where
  "request_init options =
     (let opts = (case options of
                    None \<Rightarrow> \<lparr>http_method = None, body = None, headers = None\<rparr>
                  | Some o' \<Rightarrow> o');
          optionsHeaders = (case headers opts of None \<Rightarrow> [] | Some hs \<Rightarrow> hs)
      in opts\<lparr>headers := Some (spread [(''Content-Type'', ''application/json'')] optionsHeaders)\<rparr>)"

definition request ::
  "(string \<Rightarrow> RequestInit \<Rightarrow> 'w \<Rightarrow> (exn + Response) \<times> 'w) \<Rightarrow> (string \<Rightarrow> 'a option) \<Rightarrow>
   string \<Rightarrow> RequestInit option \<Rightarrow> 'w \<Rightarrow> (exn + 'a) \<times> 'w" where
  "request fetch json path options w =
     (case fetch (API_BASE @ path) (request_init options) w of
        (Inl e, w') \<Rightarrow> (Inl e, w')
      | (Inr response, w') \<Rightarrow>
          if \<not> ok response
          then (let error = body_text response
                in (Inl (Error (if error \<noteq> [] then error
                                else ''HTTP '' @ string_of_nat (status_code response))), w'))
          else (case json (body_text response) of
                  None \<Rightarrow> (Inl SyntaxError, w')
                | Some v \<Rightarrow> (Inr v, w')))"

text \<open>
  \<^verbatim>\<open>createTransaction(data)\<close>. \<open>randomUUID\<close> is \<^verbatim>\<open>crypto.randomUUID()\<close>, a draw from the
  world; \<open>stringify\<close> is \<^verbatim>\<open>JSON.stringify\<close> on the request data.
\<close>

definition createTransaction ::
  "('w \<Rightarrow> string \<times> 'w) \<Rightarrow> (string \<Rightarrow> RequestInit \<Rightarrow> 'w \<Rightarrow> (exn + Response) \<times> 'w) \<Rightarrow>
   (string \<Rightarrow> Transaction option) \<Rightarrow> (NewTransaction \<Rightarrow> string) \<Rightarrow>
   NewTransaction \<Rightarrow> 'w \<Rightarrow> (exn + Transaction) \<times> 'w" where
  "createTransaction randomUUID fetch json stringify data w =
     (case randomUUID w of
        (idempotencyKey, w1) \<Rightarrow>
          request fetch json ''/transactions/create''
            (Some \<lparr>http_method = Some ''POST'', body = Some (stringify data),
                   headers = Some [(''Idempotency-Key'', idempotencyKey)]\<rparr>) w1)"

text \<open>
  \<open>create\<close> of \<open>useTransactions\<close>: the awaited \<open>createTransaction\<close>, then
  \<^verbatim>\<open>setTransactions(prev => [tx, ...prev])\<close>. A rejection leaves before the store is written.
\<close>

definition create ::
  "('w \<Rightarrow> string \<times> 'w) \<Rightarrow> (string \<Rightarrow> RequestInit \<Rightarrow> 'w \<Rightarrow> (exn + Response) \<times> 'w) \<Rightarrow>
   (string \<Rightarrow> Transaction option) \<Rightarrow> (NewTransaction \<Rightarrow> string) \<Rightarrow>
   NewTransaction \<Rightarrow> 'w \<times> Transaction list \<Rightarrow> (exn + Transaction) \<times> 'w \<times> Transaction list" where
  "create randomUUID fetch json stringify data st =
     (case st of
        (w, prev) \<Rightarrow>
          (case createTransaction randomUUID fetch json stringify data w of
             (Inl e, w') \<Rightarrow> (Inl e, w', prev)
           | (Inr tx, w') \<Rightarrow> (Inr tx, w', tx # prev)))"

section \<open>The push channel (src/frontend/src/hooks/useWebSocket.ts) and the combined handler (App.tsx)\<close>

text \<open>
  The value \<^verbatim>\<open>JSON.parse\<close> returns. The annotation \<^verbatim>\<open>const message: WSMessage\<close> is not checked
  when the program runs, so the handler sees any JSON value. An object is the list of its
  members, keys distinct.
\<close>

datatype json =
    JNull
  | JBool bool
  | JNumber int
  | JString string
  | JArray "json list"
  | JObject "(string \<times> json) list"

text \<open>
  \<^verbatim>\<open>message.type\<close>: reading a property of \<^verbatim>\<open>null\<close> throws a TypeError; an object gives the
  member or \<^verbatim>\<open>undefined\<close>; a boolean, number, string or array has no property of that name.
\<close>

fun message_type :: "json \<Rightarrow> exn + json option" where
  "message_type JNull = Inl TypeError"
| "message_type (JObject members) = Inr (map_of members ''type'')"
| "message_type v = Inr None"

text \<open>How a call of a subscriber ends, with the state it leaves: it returns, or it throws.\<close>

datatype 's completion = Normal 's | Throw exn 's


text \<open>
  What \<open>ws.onmessage\<close> can read and write: the flag \<open>isMounted\<close> of the effect, the hook's
  states \<open>isConnected\<close> and \<open>lastMessage\<close>, the lines written with \<^verbatim>\<open>console.warn\<close> (the frame
  each one reports), and the state \<open>subscribers\<close> that the \<open>onMessage\<close> callback acts on.
\<close>

record 's ws_state =
  isMounted :: bool
  isConnected :: bool
  lastMessage :: "json option"
  warnings :: "string list"
  subscribers :: 's

definition warn :: "string \<Rightarrow> 's ws_state \<Rightarrow> 's ws_state" where
  "warn frame st = st\<lparr>warnings := warnings st @ [frame]\<rparr>"

text \<open>
  \<open>ws.onmessage\<close> on a frame with text \<open>data\<close>. \<open>JSON_parse\<close> is the platform's parser
  (\<open>None\<close>: it throws), \<open>onMessage\<close> is \<^verbatim>\<open>onMessageRef.current\<close>, which may be undefined.
  The \<^verbatim>\<open>try\<close> block holds the parse, the keepalive test and the call of the subscriber, so
  its \<^verbatim>\<open>catch\<close> receives whatever any of them throws.
\<close>

definition onmessage ::
  "(string \<Rightarrow> json option) \<Rightarrow> (json \<Rightarrow> 's \<Rightarrow> 's completion) option \<Rightarrow>
   string \<Rightarrow> 's ws_state \<Rightarrow> 's ws_state" where
  "onmessage JSON_parse onMessage data st =
     (if \<not> isMounted st then st
      else if data = ''pong'' then st
      else case JSON_parse data of
             None \<Rightarrow> warn data st
           | Some message \<Rightarrow>
               (case message_type message of
                  Inl e \<Rightarrow> warn data st
                | Inr t \<Rightarrow>
                    if t = Some (JString ''keepalive'') then st
                    else (let st1 = st\<lparr>lastMessage := Some message\<rparr>
                          in case onMessage of
                               None \<Rightarrow> st1
                             | Some f \<Rightarrow>
                                 (case f message (subscribers st1) of
                                    Normal s' \<Rightarrow> st1\<lparr>subscribers := s'\<rparr>
                                  | Throw e s' \<Rightarrow> warn data (st1\<lparr>subscribers := s'\<rparr>)))))"

text \<open>
  The two subscribers act on the state of \<open>App\<close>: the transactions of \<open>useTransactions\<close> and
  the state of \<open>useToast\<close> (any type \<open>'t\<close>). \<open>handleWSMessage\<close> as a subscriber: its body has
  no \<^verbatim>\<open>throw\<close> and reads only fields, so it always returns.
\<close>

record 't app_state =
  transactions :: "Transaction list"
  toasts :: 't

definition store_handler :: "WSMessage \<Rightarrow> 't app_state \<Rightarrow> 't app_state completion" where
  "store_handler message s = Normal (s\<lparr>transactions := handleWSMessage message (transactions s)\<rparr>)"

section \<open>Sample inputs\<close>

text \<open>A pending transaction with identifier \<open>i\<close>.\<close>

definition pending_tx :: "string \<Rightarrow> Transaction" where
  "pending_tx i =
     \<lparr>id' = i, user_id = ''u1'', monto = ''100.50'', tipo = ingreso, status = pendiente,
      created_at = ''2024-01-01T00:00:00Z'', updated_at = ''2024-01-01T00:00:00Z''\<rparr>"

text \<open>The frame \<^verbatim>\<open>{event: "transaction.status_changed", transaction_id: i, new_status: s}\<close>.\<close>

definition status_changed :: "string \<Rightarrow> TransactionStatus option \<Rightarrow> WSMessage" where
  "status_changed i s =
     \<lparr>event = ''transaction.status_changed'', transaction_id = Some i, old_status = Some pendiente,
      new_status = s, timestamp = None, type' = None\<rparr>"

text \<open>
  A world that counts the draws of \<^verbatim>\<open>crypto.randomUUID()\<close> and keeps the requests sent:
  the \<open>n\<close>-th draw is \<open>uuid-n\<close>, and \<open>answering r\<close> is a server that answers every request
  with the response \<open>r\<close>.
\<close>

record world =
  draws :: nat
  sent :: "(string \<times> RequestInit) list"

definition counting_randomUUID :: "world \<Rightarrow> string \<times> world" where
  "counting_randomUUID w = (''uuid-'' @ string_of_nat (draws w), w\<lparr>draws := Suc (draws w)\<rparr>)"

definition answering :: "Response \<Rightarrow> string \<Rightarrow> RequestInit \<Rightarrow> world \<Rightarrow> (exn + Response) \<times> world" where
  "answering r url init w = (Inr r, w\<lparr>sent := sent w @ [(url, init)]\<rparr>)"

definition sent_keys :: "world \<Rightarrow> string option list" where
  "sent_keys w =
     map (\<lambda>(url, init). case headers init of None \<Rightarrow> None | Some hs \<Rightarrow> map_of hs ''Idempotency-Key'')
       (sent w)"

text \<open>
  \<^verbatim>\<open>JSON.parse\<close> on the texts the examples use: \<^verbatim>\<open>null\<close>, the empty object and a keepalive
  object parse, the empty text does not. The examples apply it to these texts only.
\<close>

definition JSON_parse_sample :: "string \<Rightarrow> json option" where
  \<open>JSON_parse_sample data =
     (if data = ''null'' then Some JNull
      else if data = ''{}'' then Some (JObject [])
      else if data = ''{"type":"keepalive"}'' then Some (JObject [(''type'', JString ''keepalive'')])
      else None)\<close>

text \<open>\<^verbatim>\<open>response.json()\<close> at type \<open>Transaction\<close> on one body, standing for the record \<open>pending_tx ''X''\<close>.\<close>

definition json_sample :: "string \<Rightarrow> Transaction option" where
  "json_sample b = (if b = ''{X}'' then Some (pending_tx ''X'') else None)"

definition stringify_sample :: "NewTransaction \<Rightarrow> string" where
  "stringify_sample data = new_user_id data @ '','' @ new_monto data"

text \<open>A subscriber that records the messages it is called with.\<close>

definition recording_subscriber :: "'m \<Rightarrow> 'm list \<Rightarrow> 'm list completion" where
  "recording_subscriber message s = Normal (s @ [message])"


section \<open>Reconciliation of pushed events\<close>

lemma update_tx_id [simp]: "id' (update_tx m tx) = id' tx"
  by (simp add: update_tx_def split: option.splits)

lemma update_tx_idem: "update_tx m (update_tx m tx) = update_tx m tx"
  by (simp add: update_tx_def split: option.splits)

lemma update_tx_other: "Some (id' tx) \<noteq> transaction_id m \<Longrightarrow> update_tx m tx = tx"
  by (simp add: update_tx_def split: option.splits)

lemma update_tx_status:
  "Some (id' tx) = transaction_id m \<Longrightarrow>
   status (update_tx m tx) = (case new_status m of None \<Rightarrow> status tx | Some s \<Rightarrow> s)"
  by (simp add: update_tx_def split: option.splits)

lemma handle_nth:
  "i < length s \<Longrightarrow>
   handleWSMessage m s ! i =
     (if event m = ''transaction.status_changed'' \<and> truthy (transaction_id m)
      then update_tx m (s ! i) else s ! i)"
  by (simp add: handleWSMessage_def)

lemma handle_length [simp]: "length (handleWSMessage m s) = length s"
  by (simp add: handleWSMessage_def)

lemma apply_events_snoc: "apply_events (es @ [m]) s = handleWSMessage m (apply_events es s)"
  by (simp add: apply_events_def)

lemma apply_events_length [simp]: "length (apply_events es s) = length s"
  by (induction es rule: rev_induct) (simp_all add: apply_events_def)

lemma apply_events_id: "i < length s \<Longrightarrow> id' (apply_events es s ! i) = id' (s ! i)"
proof (induction es rule: rev_induct)
  case Nil
  then show ?case by (simp add: apply_events_def)
next
  case (snoc m es)
  then show ?case by (simp add: apply_events_snoc handle_nth)
qed

text \<open>One more event for a stored record with a non-empty identifier.\<close>

lemma apply_events_snoc_status:
  assumes "i < length store" and "id' (store ! i) = X" and "X \<noteq> []"
    and "event m = ''transaction.status_changed''" and "transaction_id m = Some X"
  shows "status (apply_events (es @ [m]) store ! i) =
      (case new_status m of None \<Rightarrow> status (apply_events es store ! i) | Some s \<Rightarrow> s)"
proof -
  have idx: "Some (id' (apply_events es store ! i)) = transaction_id m"
    using assms(1,2,5) by (simp add: apply_events_id)
  have guard: "event m = ''transaction.status_changed'' \<and> truthy (transaction_id m)"
    using assms(3,4,5) by (simp add: truthy_def)
  show ?thesis
    using assms(1) guard update_tx_status [OF idx]
    by (simp add: apply_events_snoc handle_nth)
qed

lemma map_filter_snoc:
  "List.map_filter f (xs @ [x]) = List.map_filter f xs @ (case f x of None \<Rightarrow> [] | Some y \<Rightarrow> [y])"
  by (simp add: List.map_filter_def split: option.splits)

lemma last_snoc_case:
  "(case v of None \<Rightarrow> (if ns = [] then d else last ns) | Some s \<Rightarrow> s) =
   (if ns @ (case v of None \<Rightarrow> [] | Some y \<Rightarrow> [y]) = [] then d
    else last (ns @ (case v of None \<Rightarrow> [] | Some y \<Rightarrow> [y])))"
  by (cases v) simp_all

text \<open>
  C2 (as amended). The spec's tag \<open>status_changed\<close> and its statuses \<open>pending\<close> and
  \<open>processed\<close> are, in the code, the event name \<^verbatim>\<open>transaction.status_changed\<close> and the
  statuses \<open>pendiente\<close> and \<open>procesado\<close>. If the store holds, at position \<open>i\<close>, a transaction
  whose identifier \<open>X\<close> is not the empty string, and the handler receives a frame with that
  event name, \<open>transaction_id = X\<close> and \<open>new_status = procesado\<close> (whatever its old status and
  timestamp), then afterwards the store has the same length and the record at position
  \<open>i\<close> still has identifier \<open>X\<close> and now has status \<open>procesado\<close>.
\<close>

theorem status_changed_processed:
  assumes "i < length store" and "id' (store ! i) = X" and "X \<noteq> []"
    and "event m = ''transaction.status_changed''" and "transaction_id m = Some X"
    and "new_status m = Some procesado"
  shows "length (handleWSMessage m store) = length store
       \<and> id' (handleWSMessage m store ! i) = X
       \<and> status (handleWSMessage m store ! i) = procesado"
  using assms by (simp add: handle_nth truthy_def update_tx_def)

theorem status_changed_processed_witness:
  "status (pending_tx ''X'') = pendiente
   \<and> status (handleWSMessage (status_changed ''X'' (Some procesado))
        [pending_tx ''Y'', pending_tx ''X''] ! 1) = procesado"
  using status_changed_processed [of 1 "[pending_tx ''Y'', pending_tx ''X'']" "''X''"
      "status_changed ''X'' (Some procesado)"]
  by (simp add: pending_tx_def status_changed_def)

text \<open>
  C2 as stated fails for the empty identifier: the guard \<^verbatim>\<open>message.transaction_id\<close> is
  falsy for the empty string, so the frame is ignored and the record stays \<open>pendiente\<close>.
\<close>

theorem status_changed_empty_id_counterexample:
  "id' (pending_tx []) = [] \<and> status (pending_tx []) = pendiente
   \<and> status_changed [] (Some procesado) =
       \<lparr>event = ''transaction.status_changed'', transaction_id = Some [], old_status = Some pendiente,
        new_status = Some procesado, timestamp = None, type' = None\<rparr>
   \<and> map status (handleWSMessage (status_changed [] (Some procesado)) [pending_tx []]) = [pendiente]"
  by (simp add: handleWSMessage_def truthy_def pending_tx_def status_changed_def)

text \<open>
  C3 (as amended). For a transaction in the store whose identifier \<open>X\<close> is not the empty
  string, and every finite sequence of \<^verbatim>\<open>transaction.status_changed\<close> events for \<open>X\<close> applied
  in receipt order, the stored status afterwards is the \<open>new_status\<close> of the last event of
  the sequence that carries one, and the status held before when none does. No timestamp
  or sequence number is compared.
\<close>

theorem last_new_status_wins:
  assumes "i < length store" and "id' (store ! i) = X" and "X \<noteq> []"
    and "\<forall>m \<in> set es. event m = ''transaction.status_changed'' \<and> transaction_id m = Some X"
  shows "status (apply_events es store ! i) =
           (if List.map_filter new_status es = [] then status (store ! i)
            else last (List.map_filter new_status es))"
  using assms(4)
proof (induction es rule: rev_induct)
  case Nil
  show ?case by (simp add: apply_events_def List.map_filter_simps)
next
  case (snoc m es)
  from snoc.prems have m: "event m = ''transaction.status_changed''" "transaction_id m = Some X"
    and es: "\<forall>m \<in> set es. event m = ''transaction.status_changed'' \<and> transaction_id m = Some X"
    by auto
  note IH = snoc.IH [OF es]
  have "status (apply_events (es @ [m]) store ! i) =
      (case new_status m of None \<Rightarrow> status (apply_events es store ! i) | Some s \<Rightarrow> s)"
    by (rule apply_events_snoc_status [OF assms(1,2,3) m])
  also have "\<dots> = (case new_status m of
        None \<Rightarrow> (if List.map_filter new_status es = [] then status (store ! i)
            else last (List.map_filter new_status es)) | Some s \<Rightarrow> s)"
    by (simp only: IH)
  also have "\<dots> = (if List.map_filter new_status (es @ [m]) = [] then status (store ! i)
            else last (List.map_filter new_status (es @ [m])))"
    by (simp only: map_filter_snoc last_snoc_case)
  finally show ?case .
qed

theorem last_new_status_wins_witness:
  "status (apply_events [status_changed ''X'' (Some fallido), status_changed ''X'' (Some procesado)]
       [pending_tx ''Y'', pending_tx ''X''] ! 1) = procesado"
  using last_new_status_wins [of 1 "[pending_tx ''Y'', pending_tx ''X'']" "''X''"
      "[status_changed ''X'' (Some fallido), status_changed ''X'' (Some procesado)]"]
  by (simp add: pending_tx_def status_changed_def List.map_filter_def)

text \<open>
  C3 as stated fails in two ways. First, \<open>new_status\<close> is optional: after an event that sets
  \<open>procesado\<close> and a last event that carries no \<open>new_status\<close>, the stored status is
  \<open>procesado\<close>, which is not the \<open>new_status\<close> of the last event. Second, events for the
  empty identifier are ignored, so the stored status stays \<open>pendiente\<close>.
\<close>

theorem last_event_status_counterexample:
  "Some (status (apply_events [status_changed ''X'' (Some procesado), status_changed ''X'' None]
        [pending_tx ''X''] ! 0))
     \<noteq> new_status (last [status_changed ''X'' (Some procesado), status_changed ''X'' None])
   \<and> Some (status (apply_events [status_changed [] (Some procesado)] [pending_tx []] ! 0))
     \<noteq> new_status (last [status_changed [] (Some procesado)])"
  by (simp add: apply_events_def handleWSMessage_def update_tx_def truthy_def pending_tx_def
      status_changed_def)

text \<open>
  C4. Applying the same status-change event twice to the store gives the same store as
  applying it once, for every store and every event (whatever its tag and fields).
\<close>

theorem handleWSMessage_idempotent:
  "handleWSMessage m (handleWSMessage m s) = handleWSMessage m s"
  by (simp add: handleWSMessage_def update_tx_idem)

theorem handleWSMessage_idempotent_witness:
  "handleWSMessage (status_changed ''X'' (Some procesado))
     (handleWSMessage (status_changed ''X'' (Some procesado)) [pending_tx ''Y'', pending_tx ''X''])
   = [pending_tx ''Y'', (pending_tx ''X'')\<lparr>status := procesado\<rparr>]"
  using handleWSMessage_idempotent [of "status_changed ''X'' (Some procesado)"
      "[pending_tx ''Y'', pending_tx ''X'']"]
  by (simp add: handleWSMessage_def update_tx_def truthy_def pending_tx_def status_changed_def)

text \<open>
  C5. An event whose \<open>transaction_id\<close> is the identifier of no transaction in the store
  leaves the store as it is: no record is added, removed or changed, and the handler
  returns normally.
\<close>

theorem unknown_id_dropped:
  assumes "\<forall>tx \<in> set (transactions s). Some (id' tx) \<noteq> transaction_id m"
  shows "handleWSMessage m (transactions s) = transactions s \<and> store_handler m s = Normal s"
proof -
  have "map (update_tx m) (transactions s) = transactions s"
    using assms by (simp add: map_idI update_tx_other)
  then have "handleWSMessage m (transactions s) = transactions s"
    by (simp add: handleWSMessage_def)
  then show ?thesis by (simp add: store_handler_def)
qed

theorem unknown_id_dropped_witness:
  "store_handler (status_changed ''Z'' (Some procesado))
       \<lparr>transactions = [pending_tx ''Y'', pending_tx ''X''], toasts = ()\<rparr>
     = Normal \<lparr>transactions = [pending_tx ''Y'', pending_tx ''X''], toasts = ()\<rparr>"
  using unknown_id_dropped [of "\<lparr>transactions = [pending_tx ''Y'', pending_tx ''X''], toasts = ()\<rparr>"
      "status_changed ''Z'' (Some procesado)"]
  by (simp add: pending_tx_def status_changed_def)

text \<open>
  C10. The handler keeps the length of the collection and, position by position, the
  fields \<open>id\<close>, \<open>user_id\<close>, \<open>monto\<close>, \<open>tipo\<close> and \<open>created_at\<close> of every record; a record whose
  identifier is not the event's \<open>transaction_id\<close> is unchanged; the status changes only
  when the event carries a \<open>new_status\<close>; and \<open>updated_at\<close> keeps its value when the event
  carries no timestamp.
\<close>

theorem status_change_frame:
  "length (handleWSMessage m s) = length s \<and>
   (\<forall>i < length s.
      id' (handleWSMessage m s ! i) = id' (s ! i) \<and>
      user_id (handleWSMessage m s ! i) = user_id (s ! i) \<and>
      monto (handleWSMessage m s ! i) = monto (s ! i) \<and>
      tipo (handleWSMessage m s ! i) = tipo (s ! i) \<and>
      created_at (handleWSMessage m s ! i) = created_at (s ! i) \<and>
      (Some (id' (s ! i)) \<noteq> transaction_id m \<longrightarrow> handleWSMessage m s ! i = s ! i) \<and>
      (new_status m = None \<longrightarrow> status (handleWSMessage m s ! i) = status (s ! i)) \<and>
      (timestamp m = None \<longrightarrow> updated_at (handleWSMessage m s ! i) = updated_at (s ! i)))"
  by (simp add: handle_nth update_tx_def split: option.splits)

theorem status_change_frame_witness:
  "length (handleWSMessage (status_changed ''X'' (Some procesado)) [pending_tx ''Y'', pending_tx ''X'']) = 2
   \<and> handleWSMessage (status_changed ''X'' (Some procesado)) [pending_tx ''Y'', pending_tx ''X''] ! 0
       = pending_tx ''Y''
   \<and> monto (handleWSMessage (status_changed ''X'' (Some procesado)) [pending_tx ''Y'', pending_tx ''X''] ! 1)
       = ''100.50''
   \<and> updated_at (handleWSMessage (status_changed ''X'' (Some procesado)) [pending_tx ''Y'', pending_tx ''X''] ! 1)
       = ''2024-01-01T00:00:00Z''
   \<and> status (handleWSMessage (status_changed ''X'' None) [pending_tx ''Y'', pending_tx ''X''] ! 1)
       = pendiente"
  using status_change_frame [of "status_changed ''X'' (Some procesado)" "[pending_tx ''Y'', pending_tx ''X'']"]
    status_change_frame [of "status_changed ''X'' None" "[pending_tx ''Y'', pending_tx ''X'']"]
  by (simp add: pending_tx_def status_changed_def)

section \<open>The API client\<close>

text \<open>
  C8 (as amended). For every request issued through the client to which the platform
  delivers a response \<open>r\<close>: if \<open>r\<close> is non-success, the client throws an error whose message
  is the response body when the body is non-empty and otherwise \<open>HTTP\<close>, a space and the
  status code in decimal; if \<open>r\<close> is successful the client throws no error of its own and
  returns the body decoded as JSON, and the call is rejected only when the body is not
  JSON (the SyntaxError of \<^verbatim>\<open>response.json()\<close>).
\<close>

theorem request_error_message:
  assumes "fetch (API_BASE @ path) (request_init options) w = (Inr r, w')"
  shows "request fetch json path options w =
     (if \<not> ok r
      then Inl (Error (if body_text r \<noteq> [] then body_text r
                       else ''HTTP '' @ string_of_nat (status_code r)))
      else (case json (body_text r) of None \<Rightarrow> Inl SyntaxError | Some v \<Rightarrow> Inr v), w')"
  using assms by (simp add: request_def Let_def split: option.splits)

theorem request_error_message_witness:
  "request (answering \<lparr>ok = False, status_code = 503, body_text = []\<rparr>) json_sample ''/transactions'' None
      \<lparr>draws = 0, sent = []\<rparr>
   = (Inl (Error ''HTTP 503''),
      \<lparr>draws = 0, sent = [(''/api/transactions'',
          \<lparr>http_method = None, body = None, headers = Some [(''Content-Type'', ''application/json'')]\<rparr>)]\<rparr>)"
  using request_error_message [of "answering \<lparr>ok = False, status_code = 503, body_text = []\<rparr>"
      "''/transactions''" None "\<lparr>draws = 0, sent = []\<rparr>"
      "\<lparr>ok = False, status_code = 503, body_text = []\<rparr>"
      "\<lparr>draws = 0, sent = [(''/api/transactions'',
          \<lparr>http_method = None, body = None, headers = Some [(''Content-Type'', ''application/json'')]\<rparr>)]\<rparr>"
      json_sample]
  by (simp add: answering_def request_init_def spread_def API_BASE_def string_of_nat.simps digit_def)

text \<open>
  C8 as stated fails on a successful response whose body is not JSON, such as a
  \<open>204\<close> with an empty body: \<^verbatim>\<open>response.json()\<close> rejects and so does the request.
\<close>

theorem successful_response_throws_counterexample:
  "ok \<lparr>ok = True, status_code = 204, body_text = []\<rparr>
   \<and> fst (request (answering \<lparr>ok = True, status_code = 204, body_text = []\<rparr>) json_sample
          ''/transactions'' None \<lparr>draws = 0, sent = []\<rparr>) = Inl SyntaxError"
  by (simp add: request_def answering_def json_sample_def)

text \<open>
  C1 (the code departs from the claim). \<open>createTransaction\<close> draws a new key from
  \<^verbatim>\<open>crypto.randomUUID()\<close> inside every invocation. Two invocations for the same data, the
  second a retry after the first was answered \<open>503\<close>, send the keys \<open>uuid-0\<close> and \<open>uuid-1\<close>
  in the header \<open>Idempotency-Key\<close>: the retry does not carry the key of the first attempt.
\<close>

theorem createTransaction_mints_key_per_call:
  "(case createTransaction counting_randomUUID (answering \<lparr>ok = False, status_code = 503, body_text = []\<rparr>)
           json_sample stringify_sample \<lparr>new_user_id = ''u1'', new_monto = ''100.50'', new_tipo = ingreso\<rparr>
           \<lparr>draws = 0, sent = []\<rparr> of
      (r1, w1) \<Rightarrow>
        (case createTransaction counting_randomUUID (answering \<lparr>ok = False, status_code = 503, body_text = []\<rparr>)
           json_sample stringify_sample \<lparr>new_user_id = ''u1'', new_monto = ''100.50'', new_tipo = ingreso\<rparr> w1 of
           (r2, w2) \<Rightarrow> (r1, r2, sent_keys w2)))
   = (Inl (Error ''HTTP 503''), Inl (Error ''HTTP 503''), [Some ''uuid-0'', Some ''uuid-1''])"
  by (simp add: createTransaction_def request_def request_init_def spread_def counting_randomUUID_def
      answering_def sent_keys_def string_of_nat.simps digit_def)

text \<open>
  C9. On a successful creation response (the platform answers the create request with a
  response that is \<open>ok\<close> and whose body decodes to the transaction \<open>tx\<close>), \<open>create\<close> returns
  \<open>tx\<close> and the store becomes \<open>tx\<close> followed by the records held before, in their order.
\<close>

theorem create_prepends:
  assumes "randomUUID w = (k, w1)"
    and "fetch (API_BASE @ ''/transactions/create'')
           (request_init (Some \<lparr>http_method = Some ''POST'', body = Some (stringify data),
                                headers = Some [(''Idempotency-Key'', k)]\<rparr>)) w1 = (Inr r, w2)"
    and "ok r" and "json (body_text r) = Some tx"
  shows "create randomUUID fetch json stringify data (w, prev) = (Inr tx, w2, tx # prev)"
  using assms by (simp add: create_def createTransaction_def request_def)

theorem create_prepends_witness:
  "create counting_randomUUID (answering \<lparr>ok = True, status_code = 200, body_text = ''{X}''\<rparr>)
      json_sample stringify_sample \<lparr>new_user_id = ''u1'', new_monto = ''100.50'', new_tipo = ingreso\<rparr>
      (\<lparr>draws = 0, sent = []\<rparr>, [pending_tx ''Y'', pending_tx ''Z''])
   = (Inr (pending_tx ''X''),
      \<lparr>draws = 1, sent = [(''/api/transactions/create'',
          \<lparr>http_method = Some ''POST'', body = Some ''u1,100.50'',
           headers = Some [(''Content-Type'', ''application/json''), (''Idempotency-Key'', ''uuid-0'')]\<rparr>)]\<rparr>,
      [pending_tx ''X'', pending_tx ''Y'', pending_tx ''Z''])"
  using create_prepends [of counting_randomUUID "\<lparr>draws = 0, sent = []\<rparr>" "''uuid-0''"
      "\<lparr>draws = 1, sent = []\<rparr>"
      "answering \<lparr>ok = True, status_code = 200, body_text = ''{X}''\<rparr>" stringify_sample
      "\<lparr>new_user_id = ''u1'', new_monto = ''100.50'', new_tipo = ingreso\<rparr>"
      "\<lparr>ok = True, status_code = 200, body_text = ''{X}''\<rparr>"
      "\<lparr>draws = 1, sent = [(''/api/transactions/create'',
          \<lparr>http_method = Some ''POST'', body = Some ''u1,100.50'',
           headers = Some [(''Content-Type'', ''application/json''), (''Idempotency-Key'', ''uuid-0'')]\<rparr>)]\<rparr>"
      json_sample "pending_tx ''X''" "[pending_tx ''Y'', pending_tx ''Z'']"]
  by (simp add: request_init_def spread_def counting_randomUUID_def answering_def json_sample_def
      stringify_sample_def API_BASE_def string_of_nat.simps digit_def)

section \<open>Frames of the push channel\<close>

lemma message_type_not_null: "v \<noteq> JNull \<Longrightarrow> \<exists>t. message_type v = Inr t"
  by (cases v) simp_all

text \<open>A frame that is neither noise nor null reaches the subscriber inside the \<^verbatim>\<open>try\<close> block.\<close>

lemma onmessage_delivers:
  assumes "isMounted st" and "data \<noteq> ''pong''" and "P data = Some v" and "v \<noteq> JNull"
    and "message_type v \<noteq> Inr (Some (JString ''keepalive''))"
  shows "onmessage P (Some h) data st =
           (case h v (subscribers st) of
              Normal s' \<Rightarrow> st\<lparr>lastMessage := Some v, subscribers := s'\<rparr>
            | Throw e s' \<Rightarrow> st\<lparr>lastMessage := Some v, subscribers := s',
                               warnings := warnings st @ [data]\<rparr>)"
proof -
  from assms(4) obtain t where t: "message_type v = Inr t"
    using message_type_not_null by blast
  with assms(5) have "t \<noteq> Some (JString ''keepalive'')" by simp
  then show ?thesis
    using assms(1,2,3) t
    by (simp add: onmessage_def warn_def Let_def split: completion.splits)
qed

text \<open>
  C7 (as amended). While the hook is mounted, for every inbound frame: (1) the literal
  frame \<open>pong\<close> changes nothing and invokes no subscriber; (2) a frame that parses to a JSON
  value whose \<open>type\<close> is \<open>keepalive\<close> changes nothing and invokes no subscriber; (3) a frame
  that does not parse as JSON only adds a diagnostic: the connection state, the last
  message and the subscribers' state are as before; (4) a frame that parses to the JSON
  value \<open>null\<close> is dropped with the same diagnostic; (5) any other frame becomes the last
  message and is passed to the subscriber, and if the subscriber throws the diagnostic is
  added.
\<close>

theorem onmessage_classification:
  assumes "isMounted st"
  shows "onmessage P f ''pong'' st = st
    \<and> (data \<noteq> ''pong'' \<and> P data = Some v \<and> message_type v = Inr (Some (JString ''keepalive''))
         \<longrightarrow> onmessage P f data st = st)
    \<and> (data \<noteq> ''pong'' \<and> P data = None
         \<longrightarrow> onmessage P f data st = st\<lparr>warnings := warnings st @ [data]\<rparr>)
    \<and> (data \<noteq> ''pong'' \<and> P data = Some JNull
         \<longrightarrow> onmessage P f data st = st\<lparr>warnings := warnings st @ [data]\<rparr>)
    \<and> (data \<noteq> ''pong'' \<and> P data = Some v \<and> v \<noteq> JNull
          \<and> message_type v \<noteq> Inr (Some (JString ''keepalive''))
         \<longrightarrow> onmessage P (Some h) data st =
             (case h v (subscribers st) of
                Normal s' \<Rightarrow> st\<lparr>lastMessage := Some v, subscribers := s'\<rparr>
              | Throw e s' \<Rightarrow> st\<lparr>lastMessage := Some v, subscribers := s',
                                 warnings := warnings st @ [data]\<rparr>))"
proof -
  have 1: "onmessage P f ''pong'' st = st"
    by (simp add: onmessage_def)
  have 2: "data \<noteq> ''pong'' \<and> P data = Some v \<and> message_type v = Inr (Some (JString ''keepalive''))
         \<longrightarrow> onmessage P f data st = st"
    using assms by (simp add: onmessage_def)
  have 3: "data \<noteq> ''pong'' \<and> P data = None
         \<longrightarrow> onmessage P f data st = st\<lparr>warnings := warnings st @ [data]\<rparr>"
    using assms by (simp add: onmessage_def warn_def)
  have 4: "data \<noteq> ''pong'' \<and> P data = Some JNull
         \<longrightarrow> onmessage P f data st = st\<lparr>warnings := warnings st @ [data]\<rparr>"
    using assms by (simp add: onmessage_def warn_def)
  have 5: "data \<noteq> ''pong'' \<and> P data = Some v \<and> v \<noteq> JNull
          \<and> message_type v \<noteq> Inr (Some (JString ''keepalive''))
         \<longrightarrow> onmessage P (Some h) data st =
             (case h v (subscribers st) of
                Normal s' \<Rightarrow> st\<lparr>lastMessage := Some v, subscribers := s'\<rparr>
              | Throw e s' \<Rightarrow> st\<lparr>lastMessage := Some v, subscribers := s',
                                 warnings := warnings st @ [data]\<rparr>)"
    using onmessage_delivers [OF assms] by blast
  from 1 2 3 4 5 show ?thesis by (intro conjI)
qed

theorem onmessage_classification_witness:
  \<open>onmessage JSON_parse_sample (Some recording_subscriber) ''pong''
      \<lparr>isMounted = True, isConnected = True, lastMessage = None, warnings = [], subscribers = []\<rparr>
     = \<lparr>isMounted = True, isConnected = True, lastMessage = None, warnings = [], subscribers = []\<rparr>
   \<and> onmessage JSON_parse_sample (Some recording_subscriber) ''{"type":"keepalive"}''
      \<lparr>isMounted = True, isConnected = True, lastMessage = None, warnings = [], subscribers = []\<rparr>
     = \<lparr>isMounted = True, isConnected = True, lastMessage = None, warnings = [], subscribers = []\<rparr>
   \<and> onmessage JSON_parse_sample (Some recording_subscriber) []
      \<lparr>isMounted = True, isConnected = True, lastMessage = None, warnings = [], subscribers = []\<rparr>
     = \<lparr>isMounted = True, isConnected = True, lastMessage = None, warnings = [[]], subscribers = []\<rparr>
   \<and> onmessage JSON_parse_sample (Some recording_subscriber) ''{}''
      \<lparr>isMounted = True, isConnected = True, lastMessage = None, warnings = [], subscribers = []\<rparr>
     = \<lparr>isMounted = True, isConnected = True, lastMessage = Some (JObject []), warnings = [],
        subscribers = [JObject []]\<rparr>\<close>
  using
    onmessage_classification [of "\<lparr>isMounted = True, isConnected = True, lastMessage = None, warnings = [], subscribers = []\<rparr>"
      JSON_parse_sample "Some recording_subscriber" \<open>''{"type":"keepalive"}''\<close>
      "JObject [(''type'', JString ''keepalive'')]" recording_subscriber]
    onmessage_classification [of "\<lparr>isMounted = True, isConnected = True, lastMessage = None, warnings = [], subscribers = []\<rparr>"
      JSON_parse_sample "Some recording_subscriber" "[]" "JObject []" recording_subscriber]
    onmessage_classification [of "\<lparr>isMounted = True, isConnected = True, lastMessage = None, warnings = [], subscribers = []\<rparr>"
      JSON_parse_sample "Some recording_subscriber" "''{}''" "JObject []" recording_subscriber]
  by (simp add: JSON_parse_sample_def recording_subscriber_def)

text \<open>
  C7 as stated fails on the frame \<open>null\<close>: it is not \<open>pong\<close>, it parses as JSON and it
  carries no keepalive tag, yet reading \<^verbatim>\<open>message.type\<close> throws inside the \<^verbatim>\<open>try\<close> block, the
  frame is reported as unparsable and the subscriber, which would have recorded it, is
  not invoked.
\<close>

theorem null_frame_not_delivered_counterexample:
  "''null'' \<noteq> ''pong'' \<and> JSON_parse_sample ''null'' = Some JNull
   \<and> message_type JNull \<noteq> Inr (Some (JString ''keepalive''))
   \<and> recording_subscriber JNull [] = Normal [JNull]
   \<and> onmessage JSON_parse_sample (Some recording_subscriber) ''null''
      \<lparr>isMounted = True, isConnected = True, lastMessage = None, warnings = [], subscribers = []\<rparr>
     = \<lparr>isMounted = True, isConnected = True, lastMessage = None, warnings = [''null''], subscribers = []\<rparr>"
  by (simp add: onmessage_def warn_def JSON_parse_sample_def recording_subscriber_def)

section \<open>Dispatch to the two subscribers\<close>



end
